theory Spec2Isabelle
  imports Main
begin

section \<open>Hoarding management: the record store of \<^verbatim>\<open>hoad.py\<close>\<close>

text \<open>
  The program keeps two CSV files, \<^verbatim>\<open>hoardings.csv\<close> and \<^verbatim>\<open>bookings.csv\<close>, reads them
  with pandas into DataFrames, changes the frame in memory and writes the whole frame
  back. The model follows the stages of the source:

  \<^item> a file holds a header and rows of text fields;
  \<^item> \<^verbatim>\<open>pd.read_csv\<close> turns each field into a cell: an empty field is NaN, any other
    field is its text;
  \<^item> \<^verbatim>\<open>load_data\<close> converts the columns \<^verbatim>\<open>images\<close>, \<^verbatim>\<open>price\<close> and \<^verbatim>\<open>is_available\<close>;
  \<^item> \<^verbatim>\<open>save_data\<close> joins the images and \<^verbatim>\<open>to_csv\<close> writes text again.

  The reader keeps text as text. pandas does more: it reads the markers \<^verbatim>\<open>N/A\<close>, \<^verbatim>\<open>NA\<close>,
  \<^verbatim>\<open>None\<close>, \<^verbatim>\<open>null\<close> and \<^verbatim>\<open>nan\<close> as missing, and it gives a column whose fields are all
  numerals or all truth values the type of its values, so that \<^verbatim>\<open>01\<close> is read as 1, and
  \<^verbatim>\<open>1\<close> beside an empty field as 1.0. That typing is not part of the frame below. What is
  proved about stored text therefore speaks of columns that pandas keeps as text, and
  the theorems that compare what is read with what was written say so in their
  statements or speak of the frame that was read, not of the stored text.

  Floating-point numbers are not modelled: the number type is a type parameter, and the
  library functions that read and write a number are parameters of the functions that
  use them: \<open>to_float\<close> for the parser behind \<^verbatim>\<open>pd.to_numeric\<close>, \<open>number_text\<close> for the text
  \<^verbatim>\<open>to_csv\<close> writes for a number of a column, \<open>float_repr\<close> for the text an f-string prints.
\<close>

subsection \<open>Strings\<close>

text \<open>\<^verbatim>\<open>str.lower()\<close> on the ASCII letters; every other character is left as it is.\<close>

definition lower_char :: "char \<Rightarrow> char" where
  "lower_char c =
     (case map_of (zip ''ABCDEFGHIJKLMNOPQRSTUVWXYZ'' ''abcdefghijklmnopqrstuvwxyz'') c of
        Some d \<Rightarrow> d
      | None \<Rightarrow> c)"

definition str_lower :: "string \<Rightarrow> string" where
  "str_lower s = map lower_char s"

text \<open>
  \<^verbatim>\<open>s.split(sep)\<close> for a separator of one character: the pieces between the
  separators, empty pieces included; the empty string gives one empty piece.
\<close>

fun str_split :: "char \<Rightarrow> string \<Rightarrow> string list" where
  "str_split sep [] = [[]]"
| "str_split sep (c # cs) =
     (if c = sep then [] # str_split sep cs
      else (case str_split sep cs of
              [] \<Rightarrow> [[c]]
            | w # ws \<Rightarrow> (c # w) # ws))"

text \<open>\<^verbatim>\<open>sep.join(xs)\<close>.\<close>

fun str_join :: "string \<Rightarrow> string list \<Rightarrow> string" where
  "str_join sep [] = []"
| "str_join sep [x] = x"
| "str_join sep (x # y # ys) = x @ sep @ str_join sep (y # ys)"

subsection \<open>Cells, rows, frames and files\<close>

text \<open>A cell of a text column as \<^verbatim>\<open>read_csv\<close> returns it.\<close>

datatype cell = NaN | Str string

definition notna :: "cell \<Rightarrow> bool" where
  "notna x = (x \<noteq> NaN)"

text \<open>\<^verbatim>\<open>str(x)\<close>: the text itself, and \<^verbatim>\<open>'nan'\<close> for NaN.\<close>

fun py_str :: "cell \<Rightarrow> string" where
  "py_str NaN = ''nan''"
| "py_str (Str s) = s"

definition read_field :: "string \<Rightarrow> cell" where
  "read_field t = (if t = [] then NaN else Str t)"

definition write_field :: "cell \<Rightarrow> string" where
  "write_field x = (case x of NaN \<Rightarrow> [] | Str s \<Rightarrow> s)"

text \<open>
  A row of the hoardings table. The columns \<^verbatim>\<open>id\<close> and \<^verbatim>\<open>size\<close> are the fields
  \<open>id_col\<close> and \<open>size_col\<close>. The text columns have the type \<open>'t\<close>, and the three
  columns that \<^verbatim>\<open>load_data\<close> converts have types of their own, so that one record
  serves every stage: text in the file, cells after \<^verbatim>\<open>read_csv\<close>, the converted row
  after \<^verbatim>\<open>load_data\<close>, and the row with joined images that \<^verbatim>\<open>save_data\<close> writes.
\<close>

record ('t, 'p, 'b, 'i) hoarding =
  id_col :: 't
  location :: 't
  district :: 't
  size_col :: 't
  price :: 'p
  is_available :: 'b
  landmark :: 't
  coordinates :: 't
  address :: 't
  images :: 'i

type_synonym hoarding_text = "(string, string, string, string) hoarding"
type_synonym hoarding_cells = "(cell, cell, cell, cell) hoarding"
type_synonym 'n listing = "(cell, 'n option, bool, string list) hoarding"
type_synonym 'n listing_joined = "(cell, 'n option, bool, string) hoarding"

text \<open>Applying one function per kind of column (\<^verbatim>\<open>df[col].apply(f)\<close>, row by row).\<close>

definition map_hoarding ::
  "('t \<Rightarrow> 'u) \<Rightarrow> ('p \<Rightarrow> 'q) \<Rightarrow> ('b \<Rightarrow> 'c) \<Rightarrow> ('i \<Rightarrow> 'j) \<Rightarrow>
   ('t, 'p, 'b, 'i) hoarding \<Rightarrow> ('u, 'q, 'c, 'j) hoarding" where
  "map_hoarding ft fp fb fi r =
     \<lparr>id_col = ft (id_col r), location = ft (location r), district = ft (district r),
      size_col = ft (size_col r), price = fp (price r), is_available = fb (is_available r),
      landmark = ft (landmark r), coordinates = ft (coordinates r),
      address = ft (address r), images = fi (images r)\<rparr>"

text \<open>A row of the bookings table; no column of it is converted.\<close>

record 't booking =
  booking_id :: 't
  hoarding_id :: 't
  user_name :: 't
  phone :: 't
  email :: 't
  start_date :: 't
  end_date :: 't
  status :: 't

definition map_booking :: "('t \<Rightarrow> 'u) \<Rightarrow> 't booking \<Rightarrow> 'u booking" where
  "map_booking f b =
     \<lparr>booking_id = f (booking_id b), hoarding_id = f (hoarding_id b),
      user_name = f (user_name b), phone = f (phone b), email = f (email b),
      start_date = f (start_date b), end_date = f (end_date b), status = f (status b)\<rparr>"

text \<open>A DataFrame: its column names and its rows, in order.\<close>

record 'r dataframe =
  columns :: "string list"
  rows :: "'r list"

text \<open>
  A file on disk: absent, of zero bytes, or a header line and rows. The two files of
  the program are \<^verbatim>\<open>DATA_FILE\<close> and \<^verbatim>\<open>BOOKINGS_FILE\<close>. A stored hoardings file is taken
  to carry the six columns id, location, district, size, price and is_available (every
  file the program writes does); the header decides which of the other four columns are
  there, and the text of a row under a column the header does not list is never read.
\<close>

datatype 'r csv_file = Missing | Blank | Csv "string list" "'r list"

record disk =
  DATA_FILE :: "hoarding_text csv_file"
  BOOKINGS_FILE :: "string booking csv_file"

datatype io_error = FileNotFoundError | EmptyDataError

text \<open>
  \<^verbatim>\<open>pd.read_csv\<close>: \<^verbatim>\<open>FileNotFoundError\<close> for an absent file, \<^verbatim>\<open>EmptyDataError\<close> for a file
  with nothing in it, the frame otherwise. \<^verbatim>\<open>df.to_csv(file, index=False)\<close> writes the
  header and every row.
\<close>

fun read_csv :: "('a \<Rightarrow> 'r) \<Rightarrow> 'a csv_file \<Rightarrow> io_error + 'r dataframe" where
  "read_csv read_row Missing = Inl FileNotFoundError"
| "read_csv read_row Blank = Inl EmptyDataError"
| "read_csv read_row (Csv header body) = Inr \<lparr>columns = header, rows = map read_row body\<rparr>"

definition to_csv :: "('r \<Rightarrow> 'a) \<Rightarrow> 'r dataframe \<Rightarrow> 'a csv_file" where
  "to_csv write_row df = Csv (columns df) (map write_row (rows df))"

subsection \<open>Loading and saving (lines 67 to 118)\<close>

definition hoarding_columns :: "string list" where
  "hoarding_columns =
     [''id'', ''location'', ''district'', ''size'', ''price'',
      ''is_available'', ''landmark'', ''coordinates'', ''address'', ''images'']"

definition booking_columns :: "string list" where
  "booking_columns =
     [''booking_id'', ''hoarding_id'', ''user_name'',
      ''phone'', ''email'', ''start_date'', ''end_date'',
      ''status'']"

text \<open>\<^verbatim>\<open>df[col] = ""\<close> on one row, for the four columns of line 80.\<close>

definition assign_empty :: "string \<Rightarrow> hoarding_cells \<Rightarrow> hoarding_cells" where
  "assign_empty col r =
     (if col = ''images'' then r\<lparr>images := Str []\<rparr>
      else if col = ''landmark'' then r\<lparr>landmark := Str []\<rparr>
      else if col = ''coordinates'' then r\<lparr>coordinates := Str []\<rparr>
      else if col = ''address'' then r\<lparr>address := Str []\<rparr>
      else r)"

text \<open>Lines 80 to 82: a missing column is added, holding the empty string.\<close>

definition ensure_column :: "hoarding_cells dataframe \<Rightarrow> string \<Rightarrow> hoarding_cells dataframe" where
  "ensure_column df col =
     (if col \<notin> set (columns df)
      then \<lparr>columns = columns df @ [col], rows = map (assign_empty col) (rows df)\<rparr>
      else df)"

text \<open>Line 86: \<^verbatim>\<open>lambda x: x.split("|") if pd.notna(x) and x != "" else []\<close>.\<close>

definition images_of_cell :: "cell \<Rightarrow> string list" where
  "images_of_cell x =
     (if notna x \<and> x \<noteq> Str [] then str_split (CHR ''|'') (py_str x) else [])"

text \<open>
  Line 90: \<^verbatim>\<open>pd.to_numeric(..., errors="coerce")\<close>. NaN stays NaN, a text is parsed by
  the library's number parser \<open>to_float\<close>, and a text it rejects becomes NaN. The
  absent price (NaN) is the value \<open>None\<close>.
\<close>

definition to_numeric :: "(string \<Rightarrow> 'n option) \<Rightarrow> cell \<Rightarrow> 'n option" where
  "to_numeric to_float x = (case x of NaN \<Rightarrow> None | Str s \<Rightarrow> to_float s)"

text \<open>Line 94: \<^verbatim>\<open>lambda x: True if str(x).lower() in ["true", "1"] else False\<close>.\<close>

definition parse_is_available :: "cell \<Rightarrow> bool" where
  "parse_is_available x =
     (if str_lower (py_str x) \<in> set [''true'', ''1''] then True else False)"

definition read_hoarding :: "hoarding_text \<Rightarrow> hoarding_cells" where
  "read_hoarding = map_hoarding read_field read_field read_field read_field"

text \<open>
  \<^verbatim>\<open>load_data\<close>. The guards of lines 85, 89 and 92 hold: \<^verbatim>\<open>images\<close> was added by the
  loop before them, and \<^verbatim>\<open>price\<close> and \<^verbatim>\<open>is_available\<close> are columns of every stored file.
\<close>

definition load_data :: "(string \<Rightarrow> 'n option) \<Rightarrow> disk \<Rightarrow> 'n listing dataframe" where
  "load_data to_float d =
     (let df = (case read_csv read_hoarding (DATA_FILE d) of
                  Inl e \<Rightarrow> \<lparr>columns = hoarding_columns, rows = []\<rparr>
                | Inr df \<Rightarrow> df);
          df = foldl ensure_column df [''images'', ''landmark'', ''coordinates'', ''address'']
      in \<lparr>columns = columns df,
          rows = map (map_hoarding (\<lambda>x. x) (to_numeric to_float) parse_is_available
                        images_of_cell) (rows df)\<rparr>)"

text \<open>
  What \<^verbatim>\<open>load_data\<close> makes of one stored row under a given header (lemma
  \<open>load_data_rows\<close> below derives it from \<open>load_data\<close>): a column the header does not
  list holds the empty string, then the three conversions apply.
\<close>

definition fill_missing :: "string list \<Rightarrow> hoarding_cells \<Rightarrow> hoarding_cells" where
  "fill_missing header r =
     r\<lparr>landmark := (if ''landmark'' \<in> set header then landmark r else Str []),
       coordinates := (if ''coordinates'' \<in> set header then coordinates r else Str []),
       address := (if ''address'' \<in> set header then address r else Str []),
       images := (if ''images'' \<in> set header then images r else Str [])\<rparr>"

definition load_row :: "(string \<Rightarrow> 'n option) \<Rightarrow> string list \<Rightarrow> hoarding_text \<Rightarrow> 'n listing" where
  "load_row to_float header t =
     map_hoarding (\<lambda>x. x) (to_numeric to_float) parse_is_available images_of_cell
       (fill_missing header (read_hoarding t))"

text \<open>Line 101: \<^verbatim>\<open>lambda x: "|".join(x) if x else ""\<close>.\<close>

definition join_images :: "string list \<Rightarrow> string" where
  "join_images x = (if x \<noteq> [] then str_join ''|'' x else [])"

text \<open>
  What \<^verbatim>\<open>to_csv\<close> writes for a row of the frame: a text cell as it is and NaN as the
  empty field, a truth value as \<^verbatim>\<open>True\<close> or \<^verbatim>\<open>False\<close>, the joined images as they are. The
  text of a number depends on the type of the whole price column (a column of whole
  numbers is written as \<^verbatim>\<open>5000\<close>, the same column after \<^verbatim>\<open>pd.concat\<close> with a float as
  \<^verbatim>\<open>5000.0\<close>), so the number printer \<open>number_text\<close> takes the column and the number.
\<close>

definition write_price ::
  "('n option list \<Rightarrow> 'n \<Rightarrow> string) \<Rightarrow> 'n option list \<Rightarrow> 'n option \<Rightarrow> string" where
  "write_price number_text col p = (case p of None \<Rightarrow> [] | Some v \<Rightarrow> number_text col v)"

definition write_bool :: "bool \<Rightarrow> string" where
  "write_bool b = (if b then ''True'' else ''False'')"

definition write_hoarding ::
  "('n option list \<Rightarrow> 'n \<Rightarrow> string) \<Rightarrow> 'n option list \<Rightarrow> 'n listing_joined \<Rightarrow> hoarding_text" where
  "write_hoarding number_text col =
     map_hoarding write_field (write_price number_text col) write_bool (\<lambda>s. s)"

text \<open>
  \<^verbatim>\<open>save_data\<close>: the images of every row are joined (the guard of line 100 holds for
  every frame that comes from \<open>load_data\<close>), and the frame replaces the file.
\<close>

definition save_data ::
  "('n option list \<Rightarrow> 'n \<Rightarrow> string) \<Rightarrow> 'n listing dataframe \<Rightarrow> disk \<Rightarrow> disk" where
  "save_data number_text df d =
     (let df = \<lparr>columns = columns df,
                rows = map (map_hoarding (\<lambda>x. x) (\<lambda>p. p) (\<lambda>b. b) join_images) (rows df)\<rparr>
      in d\<lparr>DATA_FILE := to_csv (write_hoarding number_text (map price (rows df))) df\<rparr>)"

definition load_bookings :: "disk \<Rightarrow> cell booking dataframe" where
  "load_bookings d =
     (case read_csv (map_booking read_field) (BOOKINGS_FILE d) of
        Inl e \<Rightarrow> \<lparr>columns = booking_columns, rows = []\<rparr>
      | Inr bdf \<Rightarrow> bdf)"

definition save_bookings :: "cell booking dataframe \<Rightarrow> disk \<Rightarrow> disk" where
  "save_bookings bdf d = d\<lparr>BOOKINGS_FILE := to_csv (map_booking write_field) bdf\<rparr>"

text \<open>
  \<^verbatim>\<open>pd.concat([a, b], ignore_index=True)\<close>: the rows of \<open>a\<close>, then those of \<open>b\<close>; the
  columns of \<open>a\<close>, then the new ones of \<open>b\<close>.
\<close>

definition concat_frames :: "'r dataframe \<Rightarrow> 'r dataframe \<Rightarrow> 'r dataframe" where
  "concat_frames a b =
     \<lparr>columns = columns a @ filter (\<lambda>c. c \<notin> set (columns a)) (columns b),
      rows = rows a @ rows b\<rparr>"

subsection \<open>The booking form (lines 157 to 192)\<close>

text \<open>
  A \<^verbatim>\<open>datetime.date\<close>, its order, and \<^verbatim>\<open>str(date)\<close>, the ISO form with four, two and
  two digits.
\<close>

record date =
  year :: nat
  month :: nat
  day :: nat

definition date_less :: "date \<Rightarrow> date \<Rightarrow> bool" where
  "date_less a b =
     (year a < year b \<or>
      (year a = year b \<and> (month a < month b \<or> (month a = month b \<and> day a < day b))))"

definition digit :: "nat \<Rightarrow> char" where
  "digit n = ''0123456789'' ! (n mod 10)"

definition date_str :: "date \<Rightarrow> string" where
  "date_str a =
     [digit (year a div 1000), digit (year a div 100), digit (year a div 10), digit (year a)]
     @ ''-'' @ [digit (month a div 10), digit (month a)]
     @ ''-'' @ [digit (day a div 10), digit (day a)]"

text \<open>What the page shows: \<^verbatim>\<open>st.error\<close>, \<^verbatim>\<open>st.warning\<close> or \<^verbatim>\<open>st.success\<close>.\<close>

datatype message = St_error string | St_warning string | St_success string

text \<open>
  \<^verbatim>\<open>booking_form\<close> when the form is submitted. The inputs are the id the page was
  opened for (the \<^verbatim>\<open>id\<close> cell of the chosen row), the five form fields, and the string
  of the fresh \<^verbatim>\<open>uuid.uuid4()\<close>. The result is the message and the disk afterwards.
\<close>

definition booking_form ::
  "disk \<Rightarrow> cell \<Rightarrow> string \<Rightarrow> string \<Rightarrow> string \<Rightarrow> date \<Rightarrow> date \<Rightarrow> string \<Rightarrow> message \<times> disk" where
  "booking_form d hoarding_id' user_name' phone' email' start_date' end_date' uuid =
     (let bdf = load_bookings d in
      if user_name' = [] \<or> phone' = [] \<or> email' = []
      then (St_error ''Please fill all required fields.'', d)
      else if date_less end_date' start_date'
      then (St_error ''End date cannot be before start date.'', d)
      else
        (let new_booking =
               \<lparr>booking_id = Str uuid,
                hoarding_id = hoarding_id',
                user_name = Str user_name',
                phone = Str phone',
                email = Str email',
                start_date = Str (date_str start_date'),
                end_date = Str (date_str end_date'),
                status = Str ''Pending''\<rparr>;
             bdf = concat_frames bdf \<lparr>columns = booking_columns, rows = [new_booking]\<rparr>
         in (St_success ''Booking created successfully!'', save_bookings bdf d)))"

subsection \<open>Viewing: the filters and the price line (lines 245 to 253, 274)\<close>

datatype py_error = AttributeError | IndexError | ValueError

text \<open>
  A value that an attribute of a DataFrame evaluates to: a column (a Series of text
  cells) or a plain integer.
\<close>

datatype py_value = Series_value "cell list" | Int_value int

text \<open>
  \<^verbatim>\<open>df.size\<close>. Attribute access on a DataFrame finds the attributes of the class before
  it looks for a column of that name, and \<^verbatim>\<open>size\<close> is a property of every DataFrame:
  the number of its elements, rows times columns. So \<^verbatim>\<open>df.size\<close> is that integer, and
  never the column \<^verbatim>\<open>size\<close> (which only \<^verbatim>\<open>df["size"]\<close> reads). \<^verbatim>\<open>df.district\<close>,
  \<^verbatim>\<open>df.is_available\<close> and \<^verbatim>\<open>df.id\<close> name no attribute of the class and read the column.
\<close>

definition dataframe_size :: "'r dataframe \<Rightarrow> py_value" where
  "dataframe_size df = Int_value (int (length (rows df) * length (columns df)))"

text \<open>\<^verbatim>\<open>x.str\<close>: the string methods of a Series; an integer has no such attribute.\<close>

fun str_accessor :: "py_value \<Rightarrow> py_error + cell list" where
  "str_accessor (Series_value xs) = Inr xs"
| "str_accessor (Int_value n) = Inl AttributeError"

fun starts_with :: "string \<Rightarrow> string \<Rightarrow> bool" where
  "starts_with [] s = True"
| "starts_with (p # ps) [] = False"
| "starts_with (p # ps) (c # cs) = (p = c \<and> starts_with ps cs)"

fun contains :: "string \<Rightarrow> string \<Rightarrow> bool" where
  "contains pat [] = (pat = [])"
| "contains pat (c # cs) = (starts_with pat (c # cs) \<or> contains pat cs)"

text \<open>
  \<^verbatim>\<open>xs.str.contains(pat, case=False, na=False)\<close> for a pattern without regular-expression
  operators: the text holds the pattern, upper and lower case alike; NaN gives False.
\<close>

definition str_contains :: "cell list \<Rightarrow> string \<Rightarrow> bool list" where
  "str_contains xs pat =
     map (\<lambda>x. case x of NaN \<Rightarrow> False | Str s \<Rightarrow> contains (str_lower pat) (str_lower s)) xs"

text \<open>\<^verbatim>\<open>df[keep]\<close> for a Series of truth values: the rows whose entry is True, in order.\<close>

definition boolean_index :: "'r dataframe \<Rightarrow> bool list \<Rightarrow> 'r dataframe" where
  "boolean_index df keep =
     \<lparr>columns = columns df, rows = map fst (filter snd (zip (rows df) keep))\<rparr>"

text \<open>Lines 246 to 253, with the three choices of the filter panel as inputs.\<close>

definition apply_filters ::
  "'n listing dataframe \<Rightarrow> string \<Rightarrow> string \<Rightarrow> string \<Rightarrow> py_error + 'n listing dataframe" where
  "apply_filters df district_filter status_filter size_filter =
     (let filtered_df = df;
          filtered_df =
            (if district_filter \<noteq> ''All''
             then boolean_index filtered_df
                    (map (\<lambda>r. district r = Str district_filter) (rows filtered_df))
             else filtered_df);
          filtered_df =
            (if status_filter \<noteq> ''All''
             then (let is_avail = (status_filter = ''Available'')
                   in boolean_index filtered_df
                        (map (\<lambda>r. is_available r = is_avail) (rows filtered_df)))
             else filtered_df)
      in if size_filter \<noteq> []
         then (case str_accessor (dataframe_size filtered_df) of
                 Inl e \<Rightarrow> Inl e
               | Inr xs \<Rightarrow> Inr (boolean_index filtered_df (str_contains xs size_filter)))
         else Inr filtered_df)"

text \<open>
  The filter as the specification words it: the rows, in order, that satisfy every
  active predicate, the size predicate being a substring match that ignores case.
\<close>

definition filter_spec ::
  "'n listing list \<Rightarrow> string \<Rightarrow> string \<Rightarrow> string \<Rightarrow> 'n listing list" where
  "filter_spec ls district_filter status_filter size_filter =
     filter (\<lambda>r. (district_filter = ''All'' \<or> district r = Str district_filter)
                \<and> (status_filter = ''All'' \<or> is_available r = (status_filter = ''Available''))
                \<and> (size_filter = [] \<or>
                     (case size_col r of
                        NaN \<Rightarrow> False
                      | Str s \<Rightarrow> contains (str_lower size_filter) (str_lower s)))) ls"

text \<open>
  Line 274, the expression inside the price line:
  \<^verbatim>\<open>row['price'] if not pd.isna(row['price']) else 'N/A'\<close>, as the f-string prints it.
\<close>

definition price_text :: "('n \<Rightarrow> string) \<Rightarrow> 'n option \<Rightarrow> string" where
  "price_text float_repr p = (case p of Some v \<Rightarrow> float_repr v | None \<Rightarrow> ''N/A'')"

subsection \<open>Adding a hoarding (lines 326 to 345)\<close>




subsection \<open>Editing a hoarding (lines 350 to 414)\<close>

definition DISTRICTS :: "string list" where
  "DISTRICTS = [''Raipur'', ''Durg'']"

text \<open>The position of the first element that satisfies \<open>P\<close>.\<close>

fun first_index :: "('a \<Rightarrow> bool) \<Rightarrow> 'a list \<Rightarrow> nat option" where
  "first_index P [] = None"
| "first_index P (x # xs) =
     (if P x then Some 0 else map_option Suc (first_index P xs))"

text \<open>
  The values of the edit form, lines 393 to 403. \<open>new_price\<close> is \<^verbatim>\<open>float(new_price)\<close>.
\<close>

record 'n edit_form =
  new_location :: string
  new_district :: string
  new_size :: string
  new_price :: 'n
  new_landmark :: string
  new_coords :: string
  new_address :: string
  new_available :: bool
  new_images :: "string list"

text \<open>
  Lines 365 to 407: the frame in memory after the loop of \<^verbatim>\<open>df.at[row_index, key] = value\<close>.
  \<^verbatim>\<open>df[df.id == hoarding_id].iloc[0]\<close> raises \<^verbatim>\<open>IndexError\<close> when no row has the id, and
  \<^verbatim>\<open>DISTRICTS.index(...)\<close> of line 376 raises \<^verbatim>\<open>ValueError\<close> when the district of the row
  is not one of the two. \<open>hoarding_id\<close> is the id that lines 363 and 364 read off the
  chosen entry of the select box.

  Two more failures come from the types pandas gives the columns, which the frame does
  not hold: when the id column was read as integers the comparison of line 365 with the
  string \<open>hoarding_id\<close> matches no row (\<^verbatim>\<open>IndexError\<close>), and \<^verbatim>\<open>df.at\<close> of line 407 raises
  \<^verbatim>\<open>TypeError\<close> where the type of a column does not admit the new value. An edit that
  succeeds in the code went through neither, and what is proved about an edit is
  stated of an edit that succeeds.
\<close>

definition update_frame ::
  "'n listing dataframe \<Rightarrow> string \<Rightarrow> 'n edit_form \<Rightarrow> py_error + 'n listing dataframe" where
  "update_frame df hoarding_id' form =
     (case first_index (\<lambda>r. id_col r = Str hoarding_id') (rows df) of
        None \<Rightarrow> Inl IndexError
      | Some row_index \<Rightarrow>
          (let hoarding_data = rows df ! row_index in
           if district hoarding_data \<notin> set (map Str DISTRICTS) then Inl ValueError
           else
             (let existing_images = images hoarding_data;
                  updated =
                    hoarding_data
                      \<lparr>location := Str (new_location form),
                       district := Str (new_district form),
                       size_col := Str (new_size form),
                       price := Some (new_price form),
                       landmark := Str (new_landmark form),
                       coordinates := Str (new_coords form),
                       address := Str (new_address form),
                       is_available := new_available form,
                       images := existing_images @ new_images form\<rparr>
              in Inr (df\<lparr>rows := (rows df)[row_index := updated]\<rparr>))))"

text \<open>
  "Edit Existing" when the form is submitted: the warning of line 354 for an empty
  table, else the update and \<^verbatim>\<open>save_data\<close>.
\<close>

definition edit_existing ::
  "(string \<Rightarrow> 'n option) \<Rightarrow> ('n option list \<Rightarrow> 'n \<Rightarrow> string) \<Rightarrow> disk \<Rightarrow> string \<Rightarrow>
   'n edit_form \<Rightarrow> py_error + message \<times> disk" where
  "edit_existing to_float number_text d hoarding_id' form =
     (let df = load_data to_float d in
      if rows df = [] then Inr (St_warning ''No hoardings available for editing'', d)
      else (case update_frame df hoarding_id' form of
              Inl e \<Rightarrow> Inl e
            | Inr df \<Rightarrow>
                Inr (St_success ''Hoarding updated successfully!'', save_data number_text df d)))"


subsection \<open>The texts that line 94 takes for true\<close>

text \<open>
  The sixteen spellings of \<^verbatim>\<open>true\<close> in upper and
  lower case, and \<^verbatim>\<open>1\<close>.
\<close>

definition truthy_texts :: "string list" where
  "truthy_texts =
     [''true'', ''truE'', ''trUe'', ''trUE'', ''tRue'', ''tRuE'', ''tRUe'', ''tRUE'',
      ''True'', ''TruE'', ''TrUe'', ''TrUE'', ''TRue'', ''TRuE'', ''TRUe'', ''TRUE'',
      ''1'']"

text \<open>The rows and the header that a file holds; an absent or empty file holds none.\<close>

fun file_body :: "'r csv_file \<Rightarrow> 'r list" where
  "file_body (Csv header body) = body"
| "file_body Missing = []"
| "file_body Blank = []"


subsection \<open>Example data\<close>

text \<open>
  A number format for the examples: whole numbers in decimal digits. \<open>read_whole\<close>
  stands for the number parser and \<open>show_whole\<close> for the number printer.
\<close>

fun read_digits :: "nat \<Rightarrow> string \<Rightarrow> nat option" where
  "read_digits acc [] = Some acc"
| "read_digits acc (c # cs) =
     (case map_of (zip ''0123456789'' [0, 1, 2, 3, 4, 5, 6, 7, 8, 9]) c of
        None \<Rightarrow> None
      | Some v \<Rightarrow> read_digits (10 * acc + v) cs)"

definition read_whole :: "string \<Rightarrow> nat option" where
  "read_whole s = (if s = [] then None else read_digits 0 s)"

fun show_whole :: "nat \<Rightarrow> string" where
  "show_whole n = (if n < 10 then [digit n] else show_whole (n div 10) @ [digit n])"

declare show_whole.simps [simp del]

definition example_hoarding :: "string \<Rightarrow> string \<Rightarrow> string \<Rightarrow> hoarding_text" where
  "example_hoarding i p a =
     \<lparr>id_col = i, location = ''Station Road'', district = ''Raipur'', size_col = ''10x20'',
      price = p, is_available = a, landmark = ''Clock tower'',
      coordinates = ''21.25,81.63'', address = ''Station Road, Raipur'',
      images = ''hoarding_images/a.jpg|hoarding_images/b.png''\<rparr>"

definition price_disk :: disk where
  "price_disk =
     \<lparr>DATA_FILE = Csv hoarding_columns
        [example_hoarding ''h1'' ''abc'' ''True'', example_hoarding ''h2'' [] ''True''],
      BOOKINGS_FILE = Missing\<rparr>"

definition fresh_disk :: disk where
  "fresh_disk = \<lparr>DATA_FILE = Missing, BOOKINGS_FILE = Blank\<rparr>"

definition booked_disk :: disk where
  "booked_disk =
     \<lparr>DATA_FILE = Csv hoarding_columns [example_hoarding ''h1'' ''5000'' ''False''],
      BOOKINGS_FILE = Missing\<rparr>"


definition edit_disk :: disk where
  "edit_disk =
     \<lparr>DATA_FILE = Csv hoarding_columns
        [(example_hoarding ''h1'' ''5000'' ''True'')\<lparr>images := ''x.jpg''\<rparr>,
         example_hoarding ''h2'' ''7500'' ''False''],
      BOOKINGS_FILE = Missing\<rparr>"

definition example_edit :: "nat edit_form" where
  "example_edit =
     \<lparr>new_location = ''Station Road'', new_district = ''Durg'', new_size = ''12x24'',
      new_price = 6000, new_landmark = ''Clock tower'', new_coords = ''21.25,81.63'',
      new_address = ''Station Road, Raipur'', new_available = False,
      new_images = [''a.jpg'', ''b.jpg'']\<rparr>"




section \<open>Properties\<close>

lemma lower_char_t: "lower_char c = CHR ''t'' \<longleftrightarrow> c = CHR ''t'' \<or> c = CHR ''T''"
  by (auto simp: lower_char_def)

lemma lower_char_r: "lower_char c = CHR ''r'' \<longleftrightarrow> c = CHR ''r'' \<or> c = CHR ''R''"
  by (auto simp: lower_char_def)

lemma lower_char_u: "lower_char c = CHR ''u'' \<longleftrightarrow> c = CHR ''u'' \<or> c = CHR ''U''"
  by (auto simp: lower_char_def)

lemma lower_char_e: "lower_char c = CHR ''e'' \<longleftrightarrow> c = CHR ''e'' \<or> c = CHR ''E''"
  by (auto simp: lower_char_def)

lemma lower_char_1: "lower_char c = CHR ''1'' \<longleftrightarrow> c = CHR ''1''"
  by (auto simp: lower_char_def)

lemma map_eq_4:
  "map f s = [a, b, c, d] \<longleftrightarrow> (\<exists>w x y z. s = [w, x, y, z] \<and> f w = a \<and> f x = b \<and> f y = c \<and> f z = d)"
  by (auto simp: map_eq_Cons_conv)

lemma str_lower_true: "str_lower s = ''true'' \<longleftrightarrow> s \<in> set (butlast truthy_texts)"
  unfolding str_lower_def map_eq_4 lower_char_t lower_char_r lower_char_u lower_char_e
  by (auto simp: truthy_texts_def)

lemma str_lower_1: "str_lower s = ''1'' \<longleftrightarrow> s = ''1''"
  by (auto simp: str_lower_def map_eq_Cons_conv lower_char_1)

text \<open>
  C2. Line 94 maps a text cell to True exactly when the text is one of the spellings of
  \<^verbatim>\<open>true\<close> in upper and lower case or is \<^verbatim>\<open>1\<close>, and NaN to False. But the lambda sees the
  stored value only after \<^verbatim>\<open>read_csv\<close> has typed the column: a column that holds \<^verbatim>\<open>1\<close> and
  an empty field is read as the floats 1.0 and NaN, \<^verbatim>\<open>str\<close> of the first is \<^verbatim>\<open>1.0\<close>, and on
  that text the lambda gives False. So a stored \<^verbatim>\<open>1\<close> can load as False.
\<close>

theorem is_available_lambda:
  "(parse_is_available (Str t) \<longleftrightarrow> t \<in> set truthy_texts)
   \<and> \<not> parse_is_available NaN
   \<and> parse_is_available (Str ''1'')
   \<and> \<not> parse_is_available (Str ''1.0'')"
proof -
  have "t \<in> set truthy_texts \<longleftrightarrow> t \<in> set (butlast truthy_texts) \<or> t = ''1''"
    by (auto simp: truthy_texts_def)
  then have "parse_is_available (Str t) \<longleftrightarrow> t \<in> set truthy_texts"
    by (simp add: parse_is_available_def str_lower_true str_lower_1)
  moreover have "\<not> parse_is_available NaN"
    by (simp add: parse_is_available_def str_lower_def lower_char_def)
  moreover have "parse_is_available (Str ''1'')"
    by (simp add: parse_is_available_def str_lower_def lower_char_def)
  moreover have "\<not> parse_is_available (Str ''1.0'')"
    by (simp add: parse_is_available_def str_lower_def lower_char_def)
  ultimately show ?thesis by blast
qed

subsection \<open>What \<open>load_data\<close> returns\<close>

lemma ensure_rows:
  "rows (foldl ensure_column \<lparr>columns = header, rows = rs\<rparr>
           [''images'', ''landmark'', ''coordinates'', ''address''])
   = map (fill_missing header) rs"
  by (auto simp: ensure_column_def assign_empty_def fill_missing_def intro!: map_idI[symmetric])

lemma load_data_rows:
  "DATA_FILE d = Csv header body \<Longrightarrow> rows (load_data f d) = map (load_row f header) body"
  by (simp add: load_data_def Let_def ensure_rows[simplified] load_row_def)

lemma is_available_load_row:
  "is_available (load_row f header t) = parse_is_available (read_field (is_available t))"
  by (simp add: load_row_def map_hoarding_def fill_missing_def read_hoarding_def)

subsection \<open>The fresh store\<close>

text \<open>
  C8. When \<^verbatim>\<open>hoardings.csv\<close> is absent or has nothing in it, \<open>load_data\<close> returns the
  frame of the ten columns with no row, and \<open>load_bookings\<close> does the same for
  \<^verbatim>\<open>bookings.csv\<close>: the two failures of \<^verbatim>\<open>read_csv\<close> are caught and give the empty table.
\<close>

theorem load_fresh_store:
  "(DATA_FILE d = Missing \<or> DATA_FILE d = Blank
      \<longrightarrow> (\<exists>e. read_csv read_hoarding (DATA_FILE d) = Inl e)
          \<and> load_data to_float d = \<lparr>columns = hoarding_columns, rows = []\<rparr>)
   \<and> (BOOKINGS_FILE d = Missing \<or> BOOKINGS_FILE d = Blank
      \<longrightarrow> (\<exists>e. read_csv (map_booking read_field) (BOOKINGS_FILE d) = Inl e)
          \<and> load_bookings d = \<lparr>columns = booking_columns, rows = []\<rparr>)"
proof -
  have "foldl ensure_column \<lparr>columns = hoarding_columns, rows = []\<rparr>
          [''images'', ''landmark'', ''coordinates'', ''address'']
        = \<lparr>columns = hoarding_columns, rows = []\<rparr>"
    by (simp add: ensure_column_def hoarding_columns_def)
  then show ?thesis
    by (auto simp: load_data_def load_bookings_def)
qed

theorem load_fresh_store_witness:
  "rows (load_data read_whole fresh_disk) = []
   \<and> rows (load_bookings fresh_disk) = []
   \<and> rows (load_data read_whole (fresh_disk\<lparr>DATA_FILE := Blank\<rparr>)) = []
   \<and> rows (load_bookings (fresh_disk\<lparr>BOOKINGS_FILE := Missing\<rparr>)) = []"
  using load_fresh_store [of fresh_disk read_whole]
    load_fresh_store [of "fresh_disk\<lparr>DATA_FILE := Blank\<rparr>" read_whole]
    load_fresh_store [of "fresh_disk\<lparr>BOOKINGS_FILE := Missing\<rparr>" read_whole]
  by (simp add: fresh_disk_def)

subsection \<open>The price\<close>

lemma price_load_row:
  "price (load_row f header t) = to_numeric f (read_field (price t))"
  by (simp add: load_row_def map_hoarding_def fill_missing_def read_hoarding_def)

text \<open>
  C7. A stored price that the number parser rejects (or an empty one) is loaded as the
  absent price: \<open>load_data\<close> returns its frame all the same, the price of the row is
  \<open>None\<close>, which is no number at all, and the price line prints \<^verbatim>\<open>N/A\<close> for it.
\<close>

theorem unparseable_price_absent:
  assumes "DATA_FILE d = Csv header body" and "i < length body"
    and "price (body ! i) = [] \<or> to_float (price (body ! i)) = None"
  shows "price (rows (load_data to_float d) ! i) = None
         \<and> price_text float_repr (price (rows (load_data to_float d) ! i)) = ''N/A''"
proof -
  have "price (rows (load_data to_float d) ! i) = to_numeric to_float (read_field (price (body ! i)))"
    using assms(1,2) by (simp add: load_data_rows price_load_row)
  also have "\<dots> = None"
    using assms(3) by (auto simp: to_numeric_def read_field_def)
  finally show ?thesis
    by (simp add: price_text_def)
qed

theorem unparseable_price_absent_witness:
  "read_whole ''abc'' = None
   \<and> length (rows (load_data read_whole price_disk)) = 2
   \<and> price (rows (load_data read_whole price_disk) ! 0) = None
   \<and> price_text show_whole (price (rows (load_data read_whole price_disk) ! 0)) = ''N/A''
   \<and> price (rows (load_data read_whole price_disk) ! 1) = None"
proof -
  define body where
    "body = [example_hoarding ''h1'' ''abc'' ''True'', example_hoarding ''h2'' [] ''True'']"
  have stored: "DATA_FILE price_disk = Csv hoarding_columns body"
    by (simp add: price_disk_def body_def)
  have abc: "read_whole ''abc'' = None"
    by (simp add: read_whole_def)
  have "price (body ! 0) = [] \<or> read_whole (price (body ! 0)) = None"
    by (simp add: body_def example_hoarding_def abc)
  from unparseable_price_absent
    [where to_float = read_whole and float_repr = show_whole and i = 0, OF stored _ this]
  have first: "price (rows (load_data read_whole price_disk) ! 0) = None
      \<and> price_text show_whole (price (rows (load_data read_whole price_disk) ! 0)) = ''N/A''"
    by (simp add: body_def price_text_def)
  have "price (body ! 1) = [] \<or> read_whole (price (body ! 1)) = None"
    by (simp add: body_def example_hoarding_def)
  from unparseable_price_absent
    [where to_float = read_whole and float_repr = show_whole and i = 1, OF stored _ this]
  have second: "price (rows (load_data read_whole price_disk) ! 1) = None"
    by (simp add: body_def)
  have len: "length (rows (load_data read_whole price_disk)) = 2"
    by (simp add: load_data_rows [OF stored] body_def)
  show ?thesis
    using first second abc len by blast
qed


subsection \<open>Bookings\<close>


text \<open>
  C4. A booking request with an empty name, phone or e-mail, or with an end date before
  the start date, is answered by \<^verbatim>\<open>st.error\<close> with the message of the failed check, and
  the disk is as it was: nothing is appended and nothing is saved.
\<close>

theorem booking_rejected:
  assumes "user_name' = [] \<or> phone' = [] \<or> email' = [] \<or> date_less end_date' start_date'"
  shows "booking_form d hoarding_id' user_name' phone' email' start_date' end_date' uuid =
     (St_error (if user_name' = [] \<or> phone' = [] \<or> email' = []
                then ''Please fill all required fields.''
                else ''End date cannot be before start date.''), d)"
  using assms by (auto simp: booking_form_def Let_def)

theorem booking_rejected_witness:
  "booking_form booked_disk (Str ''h1'') ''Asha'' ''98260'' ''asha@example.org''
     \<lparr>year = 2025, month = 3, day = 10\<rparr> \<lparr>year = 2025, month = 3, day = 9\<rparr> ''b1''
   = (St_error ''End date cannot be before start date.'', booked_disk)
   \<and> booking_form booked_disk (Str ''h1'') ''Asha'' [] ''asha@example.org''
     \<lparr>year = 2025, month = 3, day = 10\<rparr> \<lparr>year = 2025, month = 3, day = 12\<rparr> ''b1''
   = (St_error ''Please fill all required fields.'', booked_disk)"
  using booking_rejected [of "''Asha''" "''98260''" "''asha@example.org''"
      "\<lparr>year = 2025, month = 3, day = 9\<rparr>" "\<lparr>year = 2025, month = 3, day = 10\<rparr>"
      booked_disk "Str ''h1''" "''b1''"]
    booking_rejected [of "''Asha''" "[]" "''asha@example.org''"
      "\<lparr>year = 2025, month = 3, day = 12\<rparr>" "\<lparr>year = 2025, month = 3, day = 10\<rparr>"
      booked_disk "Str ''h1''" "''b1''"]
  by (simp add: date_less_def)





subsection \<open>Adding a hoarding\<close>

lemma save_data_body:
  "file_body (DATA_FILE (save_data number_text df d))
   = map (\<lambda>r. write_hoarding number_text (map price (rows df))
                (map_hoarding (\<lambda>x. x) (\<lambda>p. p) (\<lambda>b. b) join_images r)) (rows df)"
  by (simp add: save_data_def to_csv_def Let_def o_def map_hoarding_def)








subsection \<open>Editing a hoarding\<close>

lemma first_index_Some:
  "first_index P xs = Some i \<Longrightarrow> i < length xs \<and> P (xs ! i) \<and> (\<forall>j<i. \<not> P (xs ! j))"
proof (induction xs arbitrary: i)
  case Nil
  then show ?case by simp
next
  case (Cons x xs)
  show ?case
  proof (cases "P x")
    case True
    with Cons.prems show ?thesis by simp
  next
    case False
    with Cons.prems obtain k where k: "first_index P xs = Some k" "i = Suc k"
      by auto
    from Cons.IH [OF k(1)] False k(2) show ?thesis
      by (auto simp: nth_Cons split: nat.splits)
  qed
qed

lemma first_index_first:
  "i < length xs \<Longrightarrow> P (xs ! i) \<Longrightarrow> \<forall>j<i. \<not> P (xs ! j) \<Longrightarrow> first_index P xs = Some i"
proof (induction xs arbitrary: i)
  case Nil
  then show ?case by simp
next
  case (Cons x xs)
  show ?case
  proof (cases i)
    case 0
    with Cons.prems show ?thesis by simp
  next
    case (Suc k)
    with Cons.prems have "\<not> P x" by auto
    moreover have "first_index P xs = Some k"
      using Cons.prems Suc by (intro Cons.IH) auto
    ultimately show ?thesis using Suc by simp
  qed
qed

lemma join_images_str_join: "join_images x = str_join ''|'' x"
  by (simp add: join_images_def)

lemma images_written:
  "images (write_hoarding number_text col (map_hoarding (\<lambda>x. x) (\<lambda>p. p) (\<lambda>b. b) join_images r))
   = str_join ''|'' (images r)"
  by (simp add: write_hoarding_def map_hoarding_def join_images_str_join)

lemma update_frame_length:
  "update_frame df hid form = Inr df' \<Longrightarrow> length (rows df') = length (rows df)"
  by (auto simp: update_frame_def Let_def split: option.splits if_splits)


lemma edit_existing_success:
  "edit_existing to_float number_text d hid form = Inr (St_success msg, d')
   \<longleftrightarrow> (\<exists>df'. update_frame (load_data to_float d) hid form = Inr df'
             \<and> msg = ''Hoarding updated successfully!'' \<and> d' = save_data number_text df' d)"
proof -
  have "rows (load_data to_float d) \<noteq> []" if "update_frame (load_data to_float d) hid form = Inr df'" for df'
    using that by (auto simp: update_frame_def split: option.splits)
  then show ?thesis
    by (auto simp: edit_existing_def Let_def split: sum.splits)
qed




lemma edit_disk_loaded:
  "rows (load_data read_whole edit_disk)
   = [\<lparr>id_col = Str ''h1'', location = Str ''Station Road'', district = Str ''Raipur'',
       size_col = Str ''10x20'', price = Some 5000, is_available = True,
       landmark = Str ''Clock tower'', coordinates = Str ''21.25,81.63'',
       address = Str ''Station Road, Raipur'', images = [''x.jpg'']\<rparr>,
      \<lparr>id_col = Str ''h2'', location = Str ''Station Road'', district = Str ''Raipur'',
       size_col = Str ''10x20'', price = Some 7500, is_available = False,
       landmark = Str ''Clock tower'', coordinates = Str ''21.25,81.63'',
       address = Str ''Station Road, Raipur'',
       images = [''hoarding_images/a.jpg'', ''hoarding_images/b.png'']\<rparr>]"
proof -
  have stored: "DATA_FILE edit_disk = Csv hoarding_columns
        [(example_hoarding ''h1'' ''5000'' ''True'')\<lparr>images := ''x.jpg''\<rparr>,
         example_hoarding ''h2'' ''7500'' ''False'']"
    by (simp add: edit_disk_def)
  show ?thesis
    by (simp add: load_data_rows [OF stored] load_row_def map_hoarding_def
      fill_missing_def read_hoarding_def example_hoarding_def read_field_def
      parse_is_available_def str_lower_def lower_char_def hoarding_columns_def to_numeric_def
      read_whole_def images_of_cell_def notna_def)
qed

lemma edit_h1_columns: "columns (load_data read_whole edit_disk) = hoarding_columns"
  by (simp add: load_data_def edit_disk_def Let_def ensure_column_def hoarding_columns_def)

lemma edit_h1_run:
  "edit_existing read_whole (\<lambda>col. show_whole) edit_disk ''h1'' example_edit
   = Inr (St_success ''Hoarding updated successfully!'',
          edit_disk\<lparr>DATA_FILE := Csv hoarding_columns
            [\<lparr>id_col = ''h1'', location = ''Station Road'', district = ''Durg'',
              size_col = ''12x24'', price = ''6000'', is_available = ''False'',
              landmark = ''Clock tower'', coordinates = ''21.25,81.63'',
              address = ''Station Road, Raipur'', images = ''x.jpg|a.jpg|b.jpg''\<rparr>,
             example_hoarding ''h2'' ''7500'' ''False'']\<rparr>)"
  by (simp add: edit_existing_def update_frame_def Let_def edit_disk_loaded edit_h1_columns
      DISTRICTS_def example_edit_def save_data_def to_csv_def write_hoarding_def
      map_hoarding_def write_field_def write_price_def write_bool_def join_images_def
      show_whole.simps digit_def example_hoarding_def)

lemma update_frame_images:
  assumes "update_frame df hid form = Inr df'"
  shows "\<exists>i. first_index (\<lambda>r. id_col r = Str hid) (rows df) = Some i
           \<and> images (rows df' ! i) = images (rows df ! i) @ new_images form"
proof -
  from assms obtain i where i: "first_index (\<lambda>r. id_col r = Str hid) (rows df) = Some i"
    by (auto simp: update_frame_def split: option.splits)
  from first_index_Some [OF i] have "i < length (rows df)"
    by simp
  with assms i have "images (rows df' ! i) = images (rows df ! i) @ new_images form"
    by (auto simp: update_frame_def Let_def split: if_splits)
  with i show ?thesis by blast
qed

text \<open>
  C3. Editing a listing appends. When an edit succeeds, the row it reached, which is
  the first row that has the chosen id, has in the frame its former images followed by
  the newly uploaded ones, and the file holds them joined by \<^verbatim>\<open>|\<close> in that order.
  Nothing is replaced or dropped.
\<close>

theorem update_appends_images:
  assumes "edit_existing to_float number_text d hid form = Inr (St_success msg, d')"
  shows "\<exists>df' i. update_frame (load_data to_float d) hid form = Inr df'
           \<and> d' = save_data number_text df' d
           \<and> i < length (rows (load_data to_float d))
           \<and> id_col (rows (load_data to_float d) ! i) = Str hid
           \<and> (\<forall>j<i. id_col (rows (load_data to_float d) ! j) \<noteq> Str hid)
           \<and> images (rows df' ! i)
               = images (rows (load_data to_float d) ! i) @ new_images form
           \<and> images (file_body (DATA_FILE d') ! i)
               = str_join ''|'' (images (rows (load_data to_float d) ! i) @ new_images form)"
proof -
  from assms obtain df' where
    df': "update_frame (load_data to_float d) hid form = Inr df'"
    and d': "d' = save_data number_text df' d"
    by (auto simp: edit_existing_success)
  from update_frame_images [OF df'] obtain i where
    i: "first_index (\<lambda>r. id_col r = Str hid) (rows (load_data to_float d)) = Some i"
    and im: "images (rows df' ! i) = images (rows (load_data to_float d) ! i) @ new_images form"
    by blast
  from first_index_Some [OF i] have
    lt: "i < length (rows (load_data to_float d))"
    and at: "id_col (rows (load_data to_float d) ! i) = Str hid"
    and first: "\<forall>j<i. id_col (rows (load_data to_float d) ! j) \<noteq> Str hid"
    by auto
  have "i < length (rows df')"
    using update_frame_length [OF df'] lt by simp
  then have "images (file_body (DATA_FILE d') ! i)
      = str_join ''|'' (images (rows (load_data to_float d) ! i) @ new_images form)"
    by (simp add: d' save_data_body images_written im)
  with df' d' lt at first im show ?thesis
    by blast
qed

theorem update_appends_images_witness:
  "images (rows (load_data read_whole edit_disk) ! 0) = [''x.jpg'']
   \<and> new_images example_edit = [''a.jpg'', ''b.jpg'']
   \<and> (\<exists>df' d'. edit_existing read_whole (\<lambda>col. show_whole) edit_disk ''h1'' example_edit
                  = Inr (St_success ''Hoarding updated successfully!'', d')
          \<and> update_frame (load_data read_whole edit_disk) ''h1'' example_edit = Inr df'
          \<and> images (rows df' ! 0) = [''x.jpg'', ''a.jpg'', ''b.jpg'']
          \<and> images (file_body (DATA_FILE d') ! 0) = ''x.jpg|a.jpg|b.jpg'')"
proof -
  from update_appends_images [OF edit_h1_run] obtain df' i where
    df': "update_frame (load_data read_whole edit_disk) ''h1'' example_edit = Inr df'"
    and lt: "i < length (rows (load_data read_whole edit_disk))"
    and at: "id_col (rows (load_data read_whole edit_disk) ! i) = Str ''h1''"
    and im: "images (rows df' ! i)
               = images (rows (load_data read_whole edit_disk) ! i) @ new_images example_edit"
    by blast
  have "i = 0"
    using lt at by (cases i) (simp_all add: edit_disk_loaded)
  with im have appended: "images (rows df' ! 0) = [''x.jpg'', ''a.jpg'', ''b.jpg'']"
    by (simp add: edit_disk_loaded example_edit_def)
  have before: "images (rows (load_data read_whole edit_disk) ! 0) = [''x.jpg'']"
    and new: "new_images example_edit = [''a.jpg'', ''b.jpg'']"
    by (simp_all add: edit_disk_loaded example_edit_def)
  let ?d' = "edit_disk\<lparr>DATA_FILE := Csv hoarding_columns
            [\<lparr>id_col = ''h1'', location = ''Station Road'', district = ''Durg'',
              size_col = ''12x24'', price = ''6000'', is_available = ''False'',
              landmark = ''Clock tower'', coordinates = ''21.25,81.63'',
              address = ''Station Road, Raipur'', images = ''x.jpg|a.jpg|b.jpg''\<rparr>,
             example_hoarding ''h2'' ''7500'' ''False'']\<rparr>"
  have written: "images (file_body (DATA_FILE ?d') ! 0) = ''x.jpg|a.jpg|b.jpg''"
    by simp
  have "\<exists>df' d'. edit_existing read_whole (\<lambda>col. show_whole) edit_disk ''h1'' example_edit
                  = Inr (St_success ''Hoarding updated successfully!'', d')
          \<and> update_frame (load_data read_whole edit_disk) ''h1'' example_edit = Inr df'
          \<and> images (rows df' ! 0) = [''x.jpg'', ''a.jpg'', ''b.jpg'']
          \<and> images (file_body (DATA_FILE d') ! 0) = ''x.jpg|a.jpg|b.jpg''"
    by (rule exI [of _ df'], rule exI [of _ ?d']) (intro conjI edit_h1_run df' appended written)
  with before new show ?thesis
    by (intro conjI)
qed





subsection \<open>Saving what was loaded\<close>
























subsection \<open>The filters\<close>

lemma boolean_index_filter:
  "boolean_index df (map P (rows df)) = \<lparr>columns = columns df, rows = filter P (rows df)\<rparr>"
proof -
  have "map fst (filter snd (zip xs (map P xs))) = filter P xs" for xs :: "'a list"
    by (induction xs) simp_all
  then show ?thesis
    by (simp add: boolean_index_def)
qed

lemma str_accessor_size: "str_accessor (dataframe_size df) = Inl AttributeError"
  by (simp add: dataframe_size_def)

lemma optional_filter:
  "(if active then boolean_index df (map P (rows df)) else df)
   = \<lparr>columns = columns df, rows = filter (\<lambda>r. \<not> active \<or> P r) (rows df)\<rparr>"
proof (cases active)
  case True
  then show ?thesis by (simp add: boolean_index_filter)
next
  case False
  then show ?thesis by (cases df) simp
qed

lemma filters_without_size:
  "apply_filters df district_filter status_filter []
   = Inr \<lparr>columns = columns df,
          rows = filter_spec (rows df) district_filter status_filter []\<rparr>"
proof -
  let ?by_district = "\<lambda>r. district r = Str district_filter"
  let ?by_status = "\<lambda>r. is_available r = (status_filter = ''Available'')"
  let ?first = "\<lparr>columns = columns df,
                 rows = filter (\<lambda>r. \<not> district_filter \<noteq> ''All'' \<or> ?by_district r) (rows df)\<rparr>"
  have "apply_filters df district_filter status_filter []
        = Inr (if status_filter \<noteq> ''All''
               then boolean_index ?first (map ?by_status (rows ?first)) else ?first)"
    by (simp add: apply_filters_def Let_def
        optional_filter [of "district_filter \<noteq> ''All''" df ?by_district])
  also have "\<dots> = Inr \<lparr>columns = columns ?first,
        rows = filter (\<lambda>r. \<not> status_filter \<noteq> ''All'' \<or> ?by_status r) (rows ?first)\<rparr>"
    by (simp only: optional_filter [of "status_filter \<noteq> ''All''" ?first ?by_status])
  also have "\<dots> = Inr \<lparr>columns = columns df,
        rows = filter_spec (rows df) district_filter status_filter []\<rparr>"
    by (auto simp: filter_spec_def intro!: filter_cong)
  finally show ?thesis .
qed

text \<open>
  C5. With an empty size filter the filters return the rows that satisfy the active
  predicates on district and availability, in the order of the input, and with nothing
  chosen they return every row. With any other size filter line 253 raises
  \<^verbatim>\<open>AttributeError\<close>: \<^verbatim>\<open>filtered_df.size\<close> is the element count of the frame, an integer,
  and has no \<^verbatim>\<open>.str\<close>. The substring match on the size column is never evaluated.
\<close>

theorem size_filter_raises:
  "apply_filters df district_filter status_filter size_filter =
     (if size_filter \<noteq> [] then Inl AttributeError
      else Inr \<lparr>columns = columns df,
                rows = filter_spec (rows df) district_filter status_filter []\<rparr>)"
proof (cases "size_filter = []")
  case True
  then show ?thesis
    by (simp add: filters_without_size)
next
  case False
  then show ?thesis
    by (simp add: apply_filters_def Let_def str_accessor_size)
qed

theorem size_filter_raises_witness:
  "apply_filters (load_data read_whole edit_disk) ''All'' ''All'' ''10x'' = Inl AttributeError
   \<and> filter_spec (rows (load_data read_whole edit_disk)) ''All'' ''All'' ''10x''
     = rows (load_data read_whole edit_disk)
   \<and> rows (load_data read_whole edit_disk) \<noteq> []
   \<and> apply_filters (load_data read_whole edit_disk) ''Raipur'' ''Available'' []
     = Inr \<lparr>columns = hoarding_columns, rows = [rows (load_data read_whole edit_disk) ! 0]\<rparr>"
proof -
  have cols: "columns (load_data read_whole edit_disk) = hoarding_columns"
    by (simp add: load_data_def edit_disk_def Let_def ensure_column_def hoarding_columns_def)
  have spec: "filter_spec (rows (load_data read_whole edit_disk)) ''All'' ''All'' ''10x''
     = rows (load_data read_whole edit_disk)"
    by (simp add: edit_disk_loaded filter_spec_def str_lower_def lower_char_def)
  have "filter_spec (rows (load_data read_whole edit_disk)) ''Raipur'' ''Available'' []
     = [rows (load_data read_whole edit_disk) ! 0]"
    by (simp add: edit_disk_loaded filter_spec_def)
  with size_filter_raises [of "load_data read_whole edit_disk" "''Raipur''" "''Available''" "[]"]
  have ok: "apply_filters (load_data read_whole edit_disk) ''Raipur'' ''Available'' []
     = Inr \<lparr>columns = hoarding_columns, rows = [rows (load_data read_whole edit_disk) ! 0]\<rparr>"
    by (simp add: cols)
  have "rows (load_data read_whole edit_disk) \<noteq> []"
    by (simp add: edit_disk_loaded)
  with size_filter_raises [of "load_data read_whole edit_disk" "''All''" "''All''" "''10x''"] spec ok
  show ?thesis by simp
qed

end
